theory Spec2Isabelle
  imports Main
begin

section \<open>The in-memory data node of taipy (taipy/core/data/in\_memory.py)\<close>

text \<open>
  The module keeps one process-wide dictionary \<open>in_memory_storage\<close>, keyed by data-node id,
  and a class \<open>InMemoryDataNode\<close> whose \<open>_read\<close> and \<open>_write\<close> go through that dictionary.
  Its constructor pops the reserved key \<open>default_data\<close> from the properties, resolves the
  version, calls the constructor of the base class \<open>DataNode\<close> and then seeds the store
  with the popped value when there is one and the id is not yet a key of the store.

  The embedding passes the mutable state explicitly: a \<open>world\<close> holds the dictionary and what
  the outside collaborators report; every method takes the world and returns the new one.
\<close>

subsection \<open>Python values\<close>

text \<open>
  The values of the store and of the property bag are of unconstrained type
  (\<open>Dict[str, Any]\<close>); \<open>PNone\<close> is Python's \<open>None\<close>.
\<close>

datatype pyval =
    PNone
  | PBool bool
  | PInt int
  | PStr string
  | PList "pyval list"

type_synonym DataNodeId = string
type_synonym datetime = int
type_synonym timedelta = int
type_synonym pydict = "string \<rightharpoonup> pyval"

subsection \<open>Data model\<close>

text \<open>
  An edit record: the timestamp of one write, an optional job reference and free-form
  metadata.
\<close>

record Edit =
  timestamp :: datetime
  job_id :: "string option"
  edit_metadata :: pydict

datatype Scope = GLOBAL | CYCLE | SCENARIO | PIPELINE

text \<open>The attributes of a data node, as the class docstring lists them.\<close>

record DataNode =
  dn_config_id :: string
  dn_scope :: Scope
  dn_id :: DataNodeId
  dn_name :: string
  dn_owner_id :: "string option"
  dn_parent_ids :: "string set"
  dn_last_edit_date :: "datetime option"
  dn_edits :: "Edit list"
  dn_version :: string
  dn_validity_period :: "timedelta option"
  dn_edit_in_progress :: bool
  dn_properties :: pydict

text \<open>
  The state outside the node object: the module-level dictionary \<open>in_memory_storage\<close>,
  the version string the version manager currently reports together with the number of
  lookups made so far (so that a call of the collaborator is observable), and the reading
  of the clock.
\<close>

record world =
  in_memory_storage :: "DataNodeId \<rightharpoonup> pyval"
  latest_version :: string
  version_lookups :: nat
  now :: datetime

text \<open>The arguments of \<open>InMemoryDataNode.__init__\<close>; \<open>None\<close> is an argument left out.\<close>

record init_args =
  a_config_id :: string
  a_scope :: Scope
  a_id :: "DataNodeId option"
  a_name :: "string option"
  a_owner_id :: "string option"
  a_parent_ids :: "string set option"
  a_last_edit_date :: "datetime option"
  a_edits :: "Edit list option"
  a_version :: "string option"
  a_validity_period :: "timedelta option"
  a_edit_in_progress :: bool
  a_properties :: "pydict option"

datatype error = ConfigurationError

subsection \<open>The storage backend: \<open>_read\<close>, \<open>_write\<close>, \<open>storage_type\<close>\<close>

definition STORAGE_TYPE :: string where
  "STORAGE_TYPE = ''in_memory''"

definition DEFAULT_DATA_VALUE :: string where
  "DEFAULT_DATA_VALUE = ''default_data''"

definition storage_type :: string where
  "storage_type = STORAGE_TYPE"

text \<open>
  \<open>_read\<close> is \<open>in_memory_storage.get(self.id)\<close>: the stored value, or \<open>None\<close> when the id is
  not a key. \<open>dict.get\<close> with a string key has no raising path, so the result is a plain
  value and the world is not changed.
\<close>

definition InMemoryDataNode_read :: "DataNode \<Rightarrow> world \<Rightarrow> pyval" where
  "InMemoryDataNode_read self w =
     (case in_memory_storage w (dn_id self) of None \<Rightarrow> PNone | Some v \<Rightarrow> v)"

text \<open>\<open>_write\<close> is \<open>in_memory_storage[self.id] = data\<close>.\<close>

definition InMemoryDataNode_write :: "DataNode \<Rightarrow> pyval \<Rightarrow> world \<Rightarrow> world" where
  "InMemoryDataNode_write self data w =
     w\<lparr>in_memory_storage := (in_memory_storage w)(dn_id self \<mapsto> data)\<rparr>"

text \<open>A sequence of \<open>_write\<close> calls, each through its own node, in call order.\<close>

fun writes :: "(DataNode \<times> pyval) list \<Rightarrow> world \<Rightarrow> world" where
  "writes [] w = w"
| "writes ((n, v) # ws) w = writes ws (InMemoryDataNode_write n v w)"

text \<open>The two property hooks return their argument.\<close>

definition serialize_datanode_properties :: "('k \<rightharpoonup> 'v) \<Rightarrow> ('k \<rightharpoonup> 'v)" where
  "serialize_datanode_properties datanode_properties = datanode_properties"

definition deserialize_datanode_model_properties :: "('k \<rightharpoonup> 'v) \<Rightarrow> ('k \<rightharpoonup> 'v)" where
  "deserialize_datanode_model_properties datanode_model_properties = datanode_model_properties"

subsection \<open>The base class and the version manager\<close>

text \<open>
  Modelled from the spec: the version-resolution collaborator
  (\<open>_VersionManagerFactory._build_manager()._get_latest_version()\<close>), whose code is not
  part of the sources at hand. It is a zero-argument lookup returning the current version
  string; each call is counted in the world.
\<close>

definition get_latest_version :: "world \<Rightarrow> string \<times> world" where
  "get_latest_version w = (latest_version w, w\<lparr>version_lookups := Suc (version_lookups w)\<rparr>)"

text \<open>
  Modelled from the spec: the validity of a configuration id, checked by the constructor of
  the base class, which is missing from the sources. The id must be a valid identifier
  token: non-empty, with no disallowed character (a Python identifier, as the class
  docstring says: letters, digits and underscores, not starting with a digit).
\<close>

definition is_digit :: "char \<Rightarrow> bool" where
  "is_digit c = (c \<in> set ''0123456789'')"

definition is_letter :: "char \<Rightarrow> bool" where
  "is_letter c = (c \<in> set ''abcdefghijklmnopqrstuvwxyzABCDEFGHIJKLMNOPQRSTUVWXYZ_'')"

definition valid_config_id :: "string \<Rightarrow> bool" where
  "valid_config_id s =
     (case s of [] \<Rightarrow> False
      | c # cs \<Rightarrow> is_letter c \<and> list_all (\<lambda>x. is_letter x \<or> is_digit x) cs)"

text \<open>
  Modelled from the spec: the generated identifier of a node constructed without one. It
  embeds the configuration id; \<open>uuid\<close> is the fresh token drawn for this construction.
\<close>

definition new_id :: "string \<Rightarrow> string \<Rightarrow> DataNodeId" where
  "new_id config_id uuid = ''DATANODE_'' @ config_id @ ''_'' @ uuid"

text \<open>
  Modelled from the spec: \<open>DataNode.__init__\<close>, the constructor of the base class, missing
  from the sources. An invalid configuration id fails with a \<open>ConfigurationError\<close>; every
  other input is permissive. An absent id is generated, an absent name is derived from the
  configuration id, an absent version is resolved by the version manager, absent parents
  and edits are empty, and the keyword arguments become the property map.
\<close>

definition DataNode_init ::
  "string \<Rightarrow> init_args \<Rightarrow> string option \<Rightarrow> pydict \<Rightarrow> world \<Rightarrow> (error + DataNode) \<times> world" where
  "DataNode_init uuid a version kwargs w =
     (if \<not> valid_config_id (a_config_id a) then (Inl ConfigurationError, w)
      else
        let (v, w') = (case version of None \<Rightarrow> get_latest_version w | Some s \<Rightarrow> (s, w))
        in (Inr \<lparr>dn_config_id = a_config_id a,
                 dn_scope = a_scope a,
                 dn_id = (case a_id a of None \<Rightarrow> new_id (a_config_id a) uuid | Some i \<Rightarrow> i),
                 dn_name = (case a_name a of None \<Rightarrow> a_config_id a | Some n \<Rightarrow> n),
                 dn_owner_id = a_owner_id a,
                 dn_parent_ids = (case a_parent_ids a of None \<Rightarrow> {} | Some ps \<Rightarrow> ps),
                 dn_last_edit_date = a_last_edit_date a,
                 dn_edits = (case a_edits a of None \<Rightarrow> [] | Some es \<Rightarrow> es),
                 dn_version = v,
                 dn_validity_period = a_validity_period a,
                 dn_edit_in_progress = a_edit_in_progress a,
                 dn_properties = kwargs\<rparr>, w'))"

text \<open>
  Modelled from the spec: \<open>DataNode.write\<close>, missing from the sources. It delegates the
  storage to the backend's \<open>_write\<close>, then appends an edit record with the current
  timestamp and the supplied metadata and updates \<open>last_edit_date\<close>.
\<close>

definition DataNode_write ::
  "pyval \<Rightarrow> pydict \<Rightarrow> DataNode \<Rightarrow> world \<Rightarrow> DataNode \<times> world" where
  "DataNode_write data metadata self w =
     (let w' = InMemoryDataNode_write self data w;
          e = \<lparr>timestamp = now w', job_id = None, edit_metadata = metadata\<rparr>
      in (self\<lparr>dn_edits := dn_edits self @ [e], dn_last_edit_date := Some (timestamp e)\<rparr>, w'))"

text \<open>
  Modelled from the spec: \<open>DataNode.read\<close>, missing from the sources. It returns the
  backend's current value for the node's identity, the empty result when nothing was
  written.
\<close>

definition DataNode_read :: "DataNode \<Rightarrow> world \<Rightarrow> pyval" where
  "DataNode_read self w = InMemoryDataNode_read self w"

subsection \<open>The constructor of \<open>InMemoryDataNode\<close>\<close>

text \<open>\<open>d.pop(key, default)\<close>: the value of the key and the dictionary without it.\<close>

definition pop :: "pydict \<Rightarrow> string \<Rightarrow> pyval \<Rightarrow> pyval \<times> pydict" where
  "pop d k dflt =
     (case d k of None \<Rightarrow> (dflt, d) | Some v \<Rightarrow> (v, d(k := None)))"

text \<open>
  \<open>version or _VersionManagerFactory._build_manager()._get_latest_version()\<close>: Python's
  \<open>or\<close> evaluates its right operand only when the left one is falsy, and both \<open>None\<close> and
  the empty string are falsy.
\<close>

definition version_or_latest :: "string option \<Rightarrow> world \<Rightarrow> string \<times> world" where
  "version_or_latest version w =
     (case version of
        None \<Rightarrow> get_latest_version w
      | Some s \<Rightarrow> if s \<noteq> [] then (s, w) else get_latest_version w)"

text \<open>
  \<open>InMemoryDataNode.__init__\<close>. The arguments of the call of the base constructor are
  evaluated first (so the version is resolved before the base constructor can fail); the
  seeding write happens only for a constructed node, when the popped value is not \<open>None\<close>
  and the id is not a key of the store.
\<close>

definition InMemoryDataNode_init ::
  "string \<Rightarrow> init_args \<Rightarrow> world \<Rightarrow> (error + DataNode) \<times> world" where
  "InMemoryDataNode_init uuid a w =
     (let properties = (case a_properties a of None \<Rightarrow> Map.empty | Some p \<Rightarrow> p);
          (default_value, properties') = pop properties DEFAULT_DATA_VALUE PNone;
          (version, w1) = version_or_latest (a_version a) w;
          (r, w2) = DataNode_init uuid a (Some version) properties' w1
      in case r of
           Inl e \<Rightarrow> (Inl e, w2)
         | Inr self \<Rightarrow>
             if default_value \<noteq> PNone \<and> in_memory_storage w2 (dn_id self) = None
             then (let (self', w3) = DataNode_write default_value Map.empty self w2
                   in (Inr self', w3))
             else (Inr self, w2))"

text \<open>
  The id the constructed node gets, the edits it starts from and the property dictionary
  the constructor works on (\<open>{}\<close> when the argument is \<open>None\<close>).
\<close>

definition node_id :: "string \<Rightarrow> init_args \<Rightarrow> DataNodeId" where
  "node_id uuid a = (case a_id a of None \<Rightarrow> new_id (a_config_id a) uuid | Some i \<Rightarrow> i)"

definition given_edits :: "init_args \<Rightarrow> Edit list" where
  "given_edits a = (case a_edits a of None \<Rightarrow> [] | Some es \<Rightarrow> es)"

definition given_properties :: "init_args \<Rightarrow> pydict" where
  "given_properties a = (case a_properties a of None \<Rightarrow> Map.empty | Some p \<Rightarrow> p)"

subsection \<open>Concrete inputs\<close>

text \<open>
  The data node of the test fixtures (\<open>tests/conftest.py\<close>): configuration \<open>input_ds\<close>,
  scenario scope, id \<open>id_uio\<close>, and a default value in the properties. The variants
  carry \<open>None\<close> as default value, an empty version string, an explicit version, and one
  earlier edit.
\<close>

definition fixture_args :: init_args where
  "fixture_args =
     \<lparr>a_config_id = ''input_ds'', a_scope = SCENARIO, a_id = Some ''id_uio'',
      a_name = Some ''my name'', a_owner_id = Some ''parent_id'', a_parent_ids = None,
      a_last_edit_date = None, a_edits = None, a_version = None,
      a_validity_period = None, a_edit_in_progress = False,
      a_properties = Some [''default_data'' \<mapsto> PStr ''In memory Data Source'']\<rparr>"

definition none_default_args :: init_args where
  "none_default_args =
     \<lparr>a_config_id = ''input_ds'', a_scope = SCENARIO, a_id = Some ''id_uio'',
      a_name = Some ''my name'', a_owner_id = Some ''parent_id'', a_parent_ids = None,
      a_last_edit_date = None, a_edits = None, a_version = None,
      a_validity_period = None, a_edit_in_progress = False,
      a_properties = Some [''default_data'' \<mapsto> PNone]\<rparr>"

definition none_default_keep_args :: init_args where
  "none_default_keep_args =
     \<lparr>a_config_id = ''output_ds'', a_scope = SCENARIO, a_id = Some ''id_out'',
      a_name = None, a_owner_id = None, a_parent_ids = None,
      a_last_edit_date = None, a_edits = None, a_version = Some ''2.0'',
      a_validity_period = None, a_edit_in_progress = False,
      a_properties = Some [''default_data'' \<mapsto> PNone, ''path'' \<mapsto> PStr ''x'']\<rparr>"

definition empty_version_args :: init_args where
  "empty_version_args =
     \<lparr>a_config_id = ''input_ds'', a_scope = SCENARIO, a_id = Some ''id_uio'',
      a_name = Some ''my name'', a_owner_id = Some ''parent_id'', a_parent_ids = None,
      a_last_edit_date = None, a_edits = None, a_version = Some [],
      a_validity_period = None, a_edit_in_progress = False,
      a_properties = None\<rparr>"

definition explicit_version_args :: init_args where
  "explicit_version_args =
     \<lparr>a_config_id = ''input_ds'', a_scope = SCENARIO, a_id = Some ''id_uio'',
      a_name = Some ''my name'', a_owner_id = Some ''parent_id'', a_parent_ids = None,
      a_last_edit_date = None, a_edits = None, a_version = Some ''2.0'',
      a_validity_period = None, a_edit_in_progress = False,
      a_properties = None\<rparr>"

definition unversioned_args :: init_args where
  "unversioned_args =
     \<lparr>a_config_id = ''input_ds'', a_scope = SCENARIO, a_id = Some ''id_uio'',
      a_name = Some ''my name'', a_owner_id = Some ''parent_id'', a_parent_ids = None,
      a_last_edit_date = None, a_edits = None, a_version = None,
      a_validity_period = None, a_edit_in_progress = False,
      a_properties = None\<rparr>"

definition earlier_edit :: Edit where
  "earlier_edit = \<lparr>timestamp = 42, job_id = Some ''JOB_1'', edit_metadata = Map.empty\<rparr>"

definition seeding_edit :: Edit where
  "seeding_edit = \<lparr>timestamp = 100, job_id = None, edit_metadata = Map.empty\<rparr>"

definition edited_args :: init_args where
  "edited_args =
     \<lparr>a_config_id = ''input_ds'', a_scope = SCENARIO, a_id = Some ''id_uio'',
      a_name = Some ''my name'', a_owner_id = Some ''parent_id'', a_parent_ids = None,
      a_last_edit_date = Some 42, a_edits = Some [earlier_edit], a_version = Some ''2.0'',
      a_validity_period = None, a_edit_in_progress = False,
      a_properties = Some [''default_data'' \<mapsto> PInt 5]\<rparr>"

text \<open>A world with an empty store, and one where the id \<open>id_uio\<close> already has a value.\<close>

definition fresh_world :: world where
  "fresh_world =
     \<lparr>in_memory_storage = Map.empty, latest_version = ''1.0'', version_lookups = 0,
      now = 100\<rparr>"

definition stocked_world :: world where
  "stocked_world =
     \<lparr>in_memory_storage = [''id_uio'' \<mapsto> PInt 7], latest_version = ''1.0'',
      version_lookups = 0, now = 100\<rparr>"

text \<open>The node the fixture arguments give before any write, and a second node.\<close>

definition plain_node :: DataNode where
  "plain_node =
     \<lparr>dn_config_id = ''input_ds'', dn_scope = SCENARIO, dn_id = ''id_uio'',
      dn_name = ''my name'', dn_owner_id = Some ''parent_id'', dn_parent_ids = {},
      dn_last_edit_date = None, dn_edits = [], dn_version = ''1.0'',
      dn_validity_period = None, dn_edit_in_progress = False,
      dn_properties = Map.empty\<rparr>"

definition other_node :: DataNode where
  "other_node =
     \<lparr>dn_config_id = ''output_ds'', dn_scope = SCENARIO, dn_id = ''id_out'',
      dn_name = ''output_ds'', dn_owner_id = None, dn_parent_ids = {},
      dn_last_edit_date = None, dn_edits = [], dn_version = ''2.0'',
      dn_validity_period = None, dn_edit_in_progress = False,
      dn_properties = [''path'' \<mapsto> PStr ''x'']\<rparr>"

section \<open>Properties\<close>

subsection \<open>Basic facts about construction\<close>

lemma InMemoryDataNode_init_succeeds:
  assumes "valid_config_id (a_config_id a)"
  shows "\<exists>node w'. InMemoryDataNode_init uuid a w = (Inr node, w')"
  using assms
  by (simp add: InMemoryDataNode_init_def DataNode_init_def Let_def split: prod.splits)

lemma InMemoryDataNode_init_fails:
  assumes "\<not> valid_config_id (a_config_id a)"
  shows "fst (InMemoryDataNode_init uuid a w) = Inl ConfigurationError"
  using assms
  by (simp add: InMemoryDataNode_init_def DataNode_init_def Let_def split: prod.splits)

lemmas model_defs =
  InMemoryDataNode_init_def DataNode_init_def DataNode_write_def DataNode_read_def
  InMemoryDataNode_write_def InMemoryDataNode_read_def pop_def version_or_latest_def
  get_latest_version_def DEFAULT_DATA_VALUE_def valid_config_id_def is_letter_def
  is_digit_def node_id_def given_edits_def given_properties_def new_id_def Let_def

lemmas input_defs =
  fixture_args_def none_default_args_def none_default_keep_args_def empty_version_args_def
  explicit_version_args_def unversioned_args_def edited_args_def earlier_edit_def
  seeding_edit_def fresh_world_def stocked_world_def plain_node_def other_node_def

lemma DataNode_init_Inr:
  assumes "DataNode_init uuid a (Some v) kw w = (Inr self, w2)"
  shows "w2 = w" and "dn_id self = node_id uuid a" and "dn_edits self = given_edits a"
    and "dn_version self = v" and "dn_properties self = kw"
  using assms
  by (auto simp: DataNode_init_def node_id_def given_edits_def split: if_splits)

lemma DataNode_write_effect:
  assumes "DataNode_write d m self w = (self', w')"
  shows "w' = InMemoryDataNode_write self d w"
    and "dn_id self' = dn_id self"
    and "dn_edits self' = dn_edits self @ [\<lparr>timestamp = now w, job_id = None, edit_metadata = m\<rparr>]"
    and "dn_version self' = dn_version self"
    and "dn_properties self' = dn_properties self"
  using assms
  by (auto simp: DataNode_write_def InMemoryDataNode_write_def Let_def)

lemma version_or_latest_frame:
  "in_memory_storage (snd (version_or_latest v w)) = in_memory_storage w"
  "now (snd (version_or_latest v w)) = now w"
  by (auto simp: version_or_latest_def get_latest_version_def split: option.splits)

lemma pop_fst:
  "fst (pop d k dflt) = (case d k of None \<Rightarrow> dflt | Some v \<Rightarrow> v)"
  by (simp add: pop_def split: option.splits)

lemma pop_snd:
  "snd (pop d k dflt) = d(k := None)"
  by (auto simp: pop_def split: option.splits)

lemma InMemoryDataNode_init_unfold:
  "InMemoryDataNode_init uuid a w =
     (case DataNode_init uuid a (Some (fst (version_or_latest (a_version a) w)))
             (snd (pop (given_properties a) DEFAULT_DATA_VALUE PNone))
             (snd (version_or_latest (a_version a) w)) of
        (Inl e, w2) \<Rightarrow> (Inl e, w2)
      | (Inr self, w2) \<Rightarrow>
          if fst (pop (given_properties a) DEFAULT_DATA_VALUE PNone) \<noteq> PNone
             \<and> in_memory_storage w2 (dn_id self) = None
          then (Inr (fst (DataNode_write (fst (pop (given_properties a) DEFAULT_DATA_VALUE PNone))
                             Map.empty self w2)),
                snd (DataNode_write (fst (pop (given_properties a) DEFAULT_DATA_VALUE PNone))
                             Map.empty self w2))
          else (Inr self, w2))"
  by (simp add: InMemoryDataNode_init_def given_properties_def Let_def
      split: prod.splits sum.splits)

text \<open>
  What a successful construction leaves behind: the attributes of the node, and the store
  and the edits according to whether the seeding guard held.
\<close>

lemma InMemoryDataNode_init_Inr:
  assumes "InMemoryDataNode_init uuid a w = (Inr node, w')"
  shows "dn_id node = node_id uuid a"
    and "dn_version node = fst (version_or_latest (a_version a) w)"
    and "dn_properties node = snd (pop (given_properties a) DEFAULT_DATA_VALUE PNone)"
    and "version_lookups w' = version_lookups (snd (version_or_latest (a_version a) w))"
    and "now w' = now w"
    and "fst (pop (given_properties a) DEFAULT_DATA_VALUE PNone) \<noteq> PNone
           \<and> in_memory_storage w (node_id uuid a) = None \<Longrightarrow>
         in_memory_storage w' =
           (in_memory_storage w)(node_id uuid a \<mapsto>
              fst (pop (given_properties a) DEFAULT_DATA_VALUE PNone))
         \<and> dn_edits node =
             given_edits a @ [\<lparr>timestamp = now w, job_id = None, edit_metadata = Map.empty\<rparr>]"
    and "\<not> (fst (pop (given_properties a) DEFAULT_DATA_VALUE PNone) \<noteq> PNone
           \<and> in_memory_storage w (node_id uuid a) = None) \<Longrightarrow>
         in_memory_storage w' = in_memory_storage w \<and> dn_edits node = given_edits a"
proof -
  let ?v = "fst (version_or_latest (a_version a) w)"
  let ?w1 = "snd (version_or_latest (a_version a) w)"
  let ?d = "fst (pop (given_properties a) DEFAULT_DATA_VALUE PNone)"
  let ?p = "snd (pop (given_properties a) DEFAULT_DATA_VALUE PNone)"
  obtain r w2 where r: "DataNode_init uuid a (Some ?v) ?p ?w1 = (r, w2)"
    by (cases "DataNode_init uuid a (Some ?v) ?p ?w1") blast
  from assms r obtain self where self: "r = Inr self"
    by (cases r) (simp_all add: InMemoryDataNode_init_unfold)
  note base = DataNode_init_Inr [OF r [unfolded self]]
  let ?seed = "?d \<noteq> PNone \<and> in_memory_storage w (node_id uuid a) = None"
  have res: "(node, w') = (if ?seed then DataNode_write ?d Map.empty self ?w1 else (self, ?w1))"
    using assms r self base
    by (auto simp: InMemoryDataNode_init_unfold version_or_latest_frame prod_eq_iff
        split: if_splits)
  obtain s3 w3 where wr: "DataNode_write ?d Map.empty self ?w1 = (s3, w3)"
    by (cases "DataNode_write ?d Map.empty self ?w1") blast
  note eff = DataNode_write_effect [OF wr]
  show "dn_id node = node_id uuid a"
    using res wr eff(2) base(2) by (simp split: if_splits)
  show "dn_version node = ?v"
    using res wr eff(4) base(4) by (simp split: if_splits)
  show "dn_properties node = ?p"
    using res wr eff(5) base(5) by (simp split: if_splits)
  show "version_lookups w' = version_lookups ?w1"
    using res wr eff(1) by (simp add: InMemoryDataNode_write_def split: if_splits)
  show "now w' = now w"
    using res wr eff(1)
    by (simp add: InMemoryDataNode_write_def version_or_latest_frame split: if_splits)
  show "?seed \<Longrightarrow>
         in_memory_storage w' = (in_memory_storage w)(node_id uuid a \<mapsto> ?d)
         \<and> dn_edits node =
             given_edits a @ [\<lparr>timestamp = now w, job_id = None, edit_metadata = Map.empty\<rparr>]"
    using res wr eff(1,3) base(2,3)
    by (simp add: InMemoryDataNode_write_def version_or_latest_frame)
  show "\<not> ?seed \<Longrightarrow> in_memory_storage w' = in_memory_storage w \<and> dn_edits node = given_edits a"
    using res base(3) by (auto simp: version_or_latest_frame)
qed

text \<open>Writes through nodes with other ids leave the entry of a key as it is.\<close>

lemma writes_other_ids:
  assumes "\<forall>(n, v) \<in> set ws. dn_id n \<noteq> k"
  shows "in_memory_storage (writes ws w) k = in_memory_storage w k"
  using assms
proof (induction ws arbitrary: w)
  case Nil
  show ?case by simp
next
  case (Cons p ws)
  obtain n v where p: "p = (n, v)" by (cases p)
  from Cons.prems p have "dn_id n \<noteq> k" and rest: "\<forall>(n, v) \<in> set ws. dn_id n \<noteq> k"
    by auto
  from Cons.IH [OF rest] have
    "in_memory_storage (writes ws (InMemoryDataNode_write n v w)) k
       = in_memory_storage (InMemoryDataNode_write n v w) k" .
  also have "\<dots> = in_memory_storage w k"
    using \<open>dn_id n \<noteq> k\<close> by (simp add: InMemoryDataNode_write_def)
  finally show ?case by (simp add: p)
qed

subsection \<open>Evaluations at the concrete inputs\<close>

lemma fixture_construction:
  "InMemoryDataNode_init ''u'' fixture_args fresh_world =
     (Inr (plain_node\<lparr>dn_last_edit_date := Some 100, dn_edits := [seeding_edit]\<rparr>),
      fresh_world\<lparr>in_memory_storage := [''id_uio'' \<mapsto> PStr ''In memory Data Source''],
                  version_lookups := 1\<rparr>)"
  by (simp add: model_defs input_defs)

lemma fixture_construction_stocked:
  "InMemoryDataNode_init ''u'' fixture_args stocked_world =
     (Inr plain_node, stocked_world\<lparr>version_lookups := 1\<rparr>)"
  by (simp add: model_defs input_defs)

lemma none_default_construction:
  "InMemoryDataNode_init ''u'' none_default_args fresh_world =
     (Inr plain_node, fresh_world\<lparr>version_lookups := 1\<rparr>)"
  by (simp add: model_defs input_defs)

lemma none_default_keep_construction:
  "InMemoryDataNode_init ''u'' none_default_keep_args fresh_world = (Inr other_node, fresh_world)"
  by (simp add: model_defs input_defs)

lemma empty_version_construction:
  "InMemoryDataNode_init ''u'' empty_version_args fresh_world =
     (Inr plain_node, fresh_world\<lparr>version_lookups := 1\<rparr>)"
  by (simp add: model_defs input_defs)

lemma explicit_version_construction:
  "InMemoryDataNode_init ''u'' explicit_version_args fresh_world =
     (Inr (plain_node\<lparr>dn_version := ''2.0''\<rparr>), fresh_world)"
  by (simp add: model_defs input_defs)

lemma unversioned_construction:
  "InMemoryDataNode_init ''u'' unversioned_args fresh_world =
     (Inr plain_node, fresh_world\<lparr>version_lookups := 1\<rparr>)"
  by (simp add: model_defs input_defs)

lemma edited_construction:
  "InMemoryDataNode_init ''u'' edited_args fresh_world =
     (Inr (plain_node\<lparr>dn_last_edit_date := Some 100, dn_edits := [earlier_edit, seeding_edit],
                      dn_version := ''2.0''\<rparr>),
      fresh_world\<lparr>in_memory_storage := [''id_uio'' \<mapsto> PInt 5]\<rparr>)"
  by (simp add: model_defs input_defs)

section \<open>The claims\<close>

subsection \<open>Seeding the store at construction\<close>

text \<open>
  C1, as stated, at the default value \<open>None\<close>: the properties contain the key
  \<open>default_data\<close>, the store has no entry for the node's id, and the construction performs
  no write: the store still has no entry for the id and the edits have length 0, not 1.
\<close>

theorem seeding_with_None_counterexample:
  "InMemoryDataNode_init ''u'' none_default_args fresh_world =
     (Inr plain_node, fresh_world\<lparr>version_lookups := 1\<rparr>)
   \<and> given_properties none_default_args ''default_data'' = Some PNone
   \<and> in_memory_storage fresh_world (dn_id plain_node) = None
   \<and> in_memory_storage (fresh_world\<lparr>version_lookups := 1\<rparr>) (dn_id plain_node) = None
   \<and> length (dn_edits plain_node) \<noteq> 1"
  using none_default_construction by (simp add: input_defs given_properties_def)

text \<open>
  C1, amended: when the properties contain the key \<open>default_data\<close> with a value \<open>V\<close> other
  than \<open>None\<close> and the store has no entry for the node's id at construction time, the
  construction performs a write of \<open>V\<close>: \<open>read()\<close> right after the construction returns
  \<open>V\<close>, the store holds \<open>V\<close> under the id, and the edits are the edits given to the
  constructor followed by one new edit record, so their length is 1 when no edits were
  given.
\<close>

theorem default_data_seeds_store:
  assumes "InMemoryDataNode_init uuid a w = (Inr node, w')"
    and "a_properties a = Some props"
    and "props ''default_data'' = Some V"
    and "V \<noteq> PNone"
    and "in_memory_storage w (dn_id node) = None"
  shows "DataNode_read node w' = V
       \<and> in_memory_storage w' (dn_id node) = Some V
       \<and> dn_edits node =
           given_edits a @ [\<lparr>timestamp = now w', job_id = None, edit_metadata = Map.empty\<rparr>]
       \<and> length (dn_edits node) = Suc (length (given_edits a))
       \<and> (a_edits a = None \<longrightarrow> length (dn_edits node) = 1)"
proof -
  note facts = InMemoryDataNode_init_Inr [OF assms(1)]
  have d: "fst (pop (given_properties a) DEFAULT_DATA_VALUE PNone) = V"
    using assms(2,3) by (simp add: pop_fst given_properties_def DEFAULT_DATA_VALUE_def)
  have seed: "fst (pop (given_properties a) DEFAULT_DATA_VALUE PNone) \<noteq> PNone
      \<and> in_memory_storage w (node_id uuid a) = None"
    using d assms(4,5) facts(1) by simp
  from facts(6) [OF seed] d
  have store: "in_memory_storage w' = (in_memory_storage w)(node_id uuid a \<mapsto> V)"
    and edits: "dn_edits node =
      given_edits a @ [\<lparr>timestamp = now w, job_id = None, edit_metadata = Map.empty\<rparr>]"
    by simp_all
  have "in_memory_storage w' (dn_id node) = Some V"
    using store facts(1) by simp
  moreover from this have "DataNode_read node w' = V"
    by (simp add: DataNode_read_def InMemoryDataNode_read_def)
  moreover have "dn_edits node =
      given_edits a @ [\<lparr>timestamp = now w', job_id = None, edit_metadata = Map.empty\<rparr>]"
    using edits facts(5) by simp
  moreover from edits have "length (dn_edits node) = Suc (length (given_edits a))"
    by simp
  moreover from edits have "a_edits a = None \<longrightarrow> length (dn_edits node) = 1"
    by (simp add: given_edits_def)
  ultimately show ?thesis by simp
qed

theorem default_data_seeds_store_witness:
  "InMemoryDataNode_init ''u'' edited_args fresh_world =
     (Inr (plain_node\<lparr>dn_last_edit_date := Some 100, dn_edits := [earlier_edit, seeding_edit],
                      dn_version := ''2.0''\<rparr>),
      fresh_world\<lparr>in_memory_storage := [''id_uio'' \<mapsto> PInt 5]\<rparr>)
   \<and> a_properties edited_args = Some [''default_data'' \<mapsto> PInt 5]
   \<and> [''default_data'' \<mapsto> PInt 5] ''default_data'' = Some (PInt 5)
   \<and> PInt 5 \<noteq> PNone
   \<and> in_memory_storage fresh_world ''id_uio'' = None
   \<and> DataNode_read
        (plain_node\<lparr>dn_last_edit_date := Some 100, dn_edits := [earlier_edit, seeding_edit],
                    dn_version := ''2.0''\<rparr>)
        (fresh_world\<lparr>in_memory_storage := [''id_uio'' \<mapsto> PInt 5]\<rparr>) = PInt 5
   \<and> length [earlier_edit, seeding_edit] = Suc (length (given_edits edited_args))"
proof -
  have h2: "a_properties edited_args = Some [''default_data'' \<mapsto> PInt 5]"
    by (simp add: edited_args_def)
  have h3: "[''default_data'' \<mapsto> PInt 5] ''default_data'' = Some (PInt 5)"
    by simp
  have h4: "PInt 5 \<noteq> PNone"
    by simp
  have h5: "in_memory_storage fresh_world
      (dn_id (plain_node\<lparr>dn_last_edit_date := Some 100,
                dn_edits := [earlier_edit, seeding_edit], dn_version := ''2.0''\<rparr>)) = None"
    by (simp add: fresh_world_def plain_node_def)
  from default_data_seeds_store [OF edited_construction h2 h3 h4 h5]
  show ?thesis
    using edited_construction h2 h5 by (simp add: plain_node_def)
qed

text \<open>
  C2: when the properties contain the key \<open>default_data\<close> and the store already has an
  entry for the node's id, the construction performs no write: the store is the same after
  the construction, in particular the value stored under the id, and the edits are the ones
  given to the constructor.
\<close>

theorem existing_entry_not_overwritten:
  assumes "InMemoryDataNode_init uuid a w = (Inr node, w')"
    and "a_properties a = Some props"
    and "props ''default_data'' = Some V"
    and "in_memory_storage w (dn_id node) = Some x"
  shows "in_memory_storage w' = in_memory_storage w
       \<and> in_memory_storage w' (dn_id node) = Some x
       \<and> dn_edits node = given_edits a
       \<and> length (dn_edits node) = length (given_edits a)"
proof -
  note facts = InMemoryDataNode_init_Inr [OF assms(1)]
  have "\<not> (fst (pop (given_properties a) DEFAULT_DATA_VALUE PNone) \<noteq> PNone
      \<and> in_memory_storage w (node_id uuid a) = None)"
    using assms(4) facts(1) by simp
  from facts(7) [OF this] assms(4) show ?thesis by simp
qed

theorem existing_entry_not_overwritten_witness:
  "InMemoryDataNode_init ''u'' fixture_args stocked_world =
     (Inr plain_node, stocked_world\<lparr>version_lookups := 1\<rparr>)
   \<and> a_properties fixture_args = Some [''default_data'' \<mapsto> PStr ''In memory Data Source'']
   \<and> [''default_data'' \<mapsto> PStr ''In memory Data Source''] ''default_data''
       = Some (PStr ''In memory Data Source'')
   \<and> in_memory_storage stocked_world (dn_id plain_node) = Some (PInt 7)
   \<and> in_memory_storage (stocked_world\<lparr>version_lookups := 1\<rparr>) (dn_id plain_node)
       = Some (PInt 7)
   \<and> dn_edits plain_node = given_edits fixture_args"
proof -
  have h2: "a_properties fixture_args
      = Some [''default_data'' \<mapsto> PStr ''In memory Data Source'']"
    by (simp add: fixture_args_def)
  have h3: "[''default_data'' \<mapsto> PStr ''In memory Data Source''] ''default_data''
      = Some (PStr ''In memory Data Source'')"
    by simp
  have h4: "in_memory_storage stocked_world (dn_id plain_node) = Some (PInt 7)"
    by (simp add: stocked_world_def plain_node_def)
  from existing_entry_not_overwritten [OF fixture_construction_stocked h2 h3 h4]
  show ?thesis
    using fixture_construction_stocked h2 h4 by simp
qed

text \<open>
  C9: when the properties contain the key \<open>default_data\<close> with the value \<open>None\<close>, no seeding
  write occurs, whether or not the store has an entry for the node's id: the store is
  unchanged and the edits are the ones given to the constructor, so they stay empty when
  none were given.
\<close>

theorem None_default_does_not_seed:
  assumes "InMemoryDataNode_init uuid a w = (Inr node, w')"
    and "a_properties a = Some props"
    and "props ''default_data'' = Some PNone"
  shows "in_memory_storage w' = in_memory_storage w
       \<and> dn_edits node = given_edits a
       \<and> (a_edits a = None \<longrightarrow> dn_edits node = [])"
proof -
  note facts = InMemoryDataNode_init_Inr [OF assms(1)]
  have "fst (pop (given_properties a) DEFAULT_DATA_VALUE PNone) = PNone"
    using assms(2,3) by (simp add: pop_fst given_properties_def DEFAULT_DATA_VALUE_def)
  then have "\<not> (fst (pop (given_properties a) DEFAULT_DATA_VALUE PNone) \<noteq> PNone
      \<and> in_memory_storage w (node_id uuid a) = None)"
    by simp
  from facts(7) [OF this] show ?thesis
    by (simp add: given_edits_def)
qed

theorem None_default_does_not_seed_witness:
  "InMemoryDataNode_init ''u'' none_default_keep_args fresh_world = (Inr other_node, fresh_world)
   \<and> a_properties none_default_keep_args
       = Some [''default_data'' \<mapsto> PNone, ''path'' \<mapsto> PStr ''x'']
   \<and> [''default_data'' \<mapsto> PNone, ''path'' \<mapsto> PStr ''x''] ''default_data'' = Some PNone
   \<and> in_memory_storage fresh_world (dn_id other_node) = None
   \<and> a_edits none_default_keep_args = None
   \<and> dn_edits other_node = []"
proof -
  have h2: "a_properties none_default_keep_args
      = Some [''default_data'' \<mapsto> PNone, ''path'' \<mapsto> PStr ''x'']"
    by (simp add: none_default_keep_args_def)
  have h3: "[''default_data'' \<mapsto> PNone, ''path'' \<mapsto> PStr ''x''] ''default_data'' = Some PNone"
    by simp
  have h4: "a_edits none_default_keep_args = None"
    by (simp add: none_default_keep_args_def)
  from None_default_does_not_seed [OF none_default_keep_construction h2 h3]
  show ?thesis
    using none_default_keep_construction h2 h4
    by (simp add: fresh_world_def other_node_def)
qed

subsection \<open>Version resolution\<close>

text \<open>
  C3, as stated, at the empty version string: a version string is supplied, and yet the
  version manager is asked once and the node's version is what it reports, not the
  supplied string.
\<close>

theorem empty_version_counterexample:
  "a_version empty_version_args = Some []
   \<and> InMemoryDataNode_init ''u'' empty_version_args fresh_world =
       (Inr plain_node, fresh_world\<lparr>version_lookups := 1\<rparr>)
   \<and> dn_version plain_node = ''1.0''
   \<and> dn_version plain_node \<noteq> []
   \<and> version_lookups (fresh_world\<lparr>version_lookups := 1\<rparr>) = Suc (version_lookups fresh_world)"
  using empty_version_construction by (simp add: input_defs)

text \<open>
  C3, amended: when a non-empty version string is supplied, the node's version is the
  supplied string and the version manager is not asked; the version manager is asked
  exactly once when the version is unspecified or the empty string, and the node's version
  is then what the version manager reports.
\<close>

theorem version_resolution:
  assumes "InMemoryDataNode_init uuid a w = (Inr node, w')"
  shows "(\<forall>v. a_version a = Some v \<and> v \<noteq> [] \<longrightarrow>
            dn_version node = v \<and> version_lookups w' = version_lookups w)
       \<and> (a_version a = None \<or> a_version a = Some [] \<longrightarrow>
            dn_version node = latest_version w \<and> version_lookups w' = Suc (version_lookups w))"
  using InMemoryDataNode_init_Inr(2,4) [OF assms]
  by (auto simp: version_or_latest_def get_latest_version_def)

theorem version_resolution_witness:
  "InMemoryDataNode_init ''u'' explicit_version_args fresh_world =
       (Inr (plain_node\<lparr>dn_version := ''2.0''\<rparr>), fresh_world)
   \<and> a_version explicit_version_args = Some ''2.0''
   \<and> dn_version (plain_node\<lparr>dn_version := ''2.0''\<rparr>) = ''2.0''
   \<and> version_lookups fresh_world = 0
   \<and> InMemoryDataNode_init ''u'' unversioned_args fresh_world =
       (Inr plain_node, fresh_world\<lparr>version_lookups := 1\<rparr>)
   \<and> a_version unversioned_args = None
   \<and> dn_version plain_node = latest_version fresh_world
   \<and> version_lookups (fresh_world\<lparr>version_lookups := 1\<rparr>) = Suc (version_lookups fresh_world)"
proof -
  have e: "a_version explicit_version_args = Some ''2.0''"
    by (simp add: explicit_version_args_def)
  have u: "a_version unversioned_args = None"
    by (simp add: unversioned_args_def)
  from version_resolution [OF explicit_version_construction]
       version_resolution [OF unversioned_construction]
  show ?thesis
    using explicit_version_construction unversioned_construction e u
    by (simp add: fresh_world_def)
qed

subsection \<open>The reserved key\<close>

text \<open>
  C4: whatever the properties given to the constructor, the key \<open>default_data\<close> is removed
  before they are stored: the properties of the constructed node are the given ones without
  that key, and the key is not among them.
\<close>

theorem default_data_not_stored:
  assumes "InMemoryDataNode_init uuid a w = (Inr node, w')"
  shows "dn_properties node = (given_properties a)(''default_data'' := None)
       \<and> ''default_data'' \<notin> dom (dn_properties node)"
  using InMemoryDataNode_init_Inr(3) [OF assms]
  by (simp add: pop_snd DEFAULT_DATA_VALUE_def)

theorem default_data_not_stored_witness:
  "InMemoryDataNode_init ''u'' none_default_keep_args fresh_world = (Inr other_node, fresh_world)
   \<and> given_properties none_default_keep_args ''default_data'' = Some PNone
   \<and> dn_properties other_node = [''path'' \<mapsto> PStr ''x'']
   \<and> ''default_data'' \<notin> dom (dn_properties other_node)"
  using default_data_not_stored [OF none_default_keep_construction]
    none_default_keep_construction
  by (simp add: given_properties_def none_default_keep_args_def other_node_def)

subsection \<open>The backend: reading and writing\<close>

text \<open>
  C5: \<open>_write(X)\<close> followed by \<open>_read()\<close> through the same node returns \<open>X\<close>, whatever
  \<open>X\<close> is, also when writes through nodes with other ids come in between.
\<close>

theorem write_read_roundtrip:
  assumes "\<forall>(n, v) \<in> set ws. dn_id n \<noteq> dn_id self"
  shows "InMemoryDataNode_read self (InMemoryDataNode_write self X w) = X
       \<and> InMemoryDataNode_read self (writes ws (InMemoryDataNode_write self X w)) = X"
proof -
  have "in_memory_storage (InMemoryDataNode_write self X w) (dn_id self) = Some X"
    by (simp add: InMemoryDataNode_write_def)
  moreover from this writes_other_ids [OF assms]
  have "in_memory_storage (writes ws (InMemoryDataNode_write self X w)) (dn_id self) = Some X"
    by simp
  ultimately show ?thesis
    by (simp add: InMemoryDataNode_read_def)
qed

theorem write_read_roundtrip_witness:
  "dn_id other_node \<noteq> dn_id plain_node
   \<and> InMemoryDataNode_read plain_node (InMemoryDataNode_write plain_node PNone stocked_world)
       = PNone
   \<and> InMemoryDataNode_read plain_node
        (writes [(other_node, PInt 3)]
           (InMemoryDataNode_write plain_node (PList [PInt 1, PInt 2]) fresh_world))
       = PList [PInt 1, PInt 2]"
proof -
  have h: "\<forall>(n, v) \<in> set [(other_node, PInt 3)]. dn_id n \<noteq> dn_id plain_node"
    by (simp add: other_node_def plain_node_def)
  from write_read_roundtrip [OF h, of PNone stocked_world]
       write_read_roundtrip [OF h, of "PList [PInt 1, PInt 2]" fresh_world]
  show ?thesis using h by simp
qed

text \<open>
  C6: when the store has no entry for the node's id, \<open>_read()\<close> returns \<open>None\<close>, the absent
  result; the read has no error branch to take.
\<close>

theorem read_without_entry:
  assumes "in_memory_storage w (dn_id self) = None"
  shows "InMemoryDataNode_read self w = PNone"
  using assms by (simp add: InMemoryDataNode_read_def)

theorem read_without_entry_witness:
  "in_memory_storage fresh_world (dn_id plain_node) = None
   \<and> InMemoryDataNode_read plain_node fresh_world = PNone"
proof -
  have h: "in_memory_storage fresh_world (dn_id plain_node) = None"
    by (simp add: fresh_world_def)
  from read_without_entry [OF h] h show ?thesis by simp
qed

text \<open>
  C7: \<open>_write(X)\<close> replaces the entry of the node's id by \<open>X\<close> whatever the store held
  before; after \<open>_write(X)\<close> and then \<open>_write(Y)\<close>, \<open>_read()\<close> returns \<open>Y\<close>.
\<close>

theorem write_overwrites:
  "in_memory_storage (InMemoryDataNode_write self X w) (dn_id self) = Some X
   \<and> in_memory_storage (InMemoryDataNode_write self X w) = (in_memory_storage w)(dn_id self \<mapsto> X)
   \<and> InMemoryDataNode_read self
       (InMemoryDataNode_write self Y (InMemoryDataNode_write self X w)) = Y"
  by (simp add: InMemoryDataNode_write_def InMemoryDataNode_read_def)

text \<open>
  C10: a \<open>_write\<close> through one node leaves the entry, or the absence of an entry, of a node
  with another id as it was; the write changes the key of the writing node's id and no
  other key.
\<close>

theorem write_changes_own_key_only:
  assumes "dn_id n1 \<noteq> dn_id n2"
  shows "in_memory_storage (InMemoryDataNode_write n1 X w) (dn_id n2)
           = in_memory_storage w (dn_id n2)
       \<and> InMemoryDataNode_read n2 (InMemoryDataNode_write n1 X w) = InMemoryDataNode_read n2 w
       \<and> (\<forall>k. k \<noteq> dn_id n1 \<longrightarrow>
            in_memory_storage (InMemoryDataNode_write n1 X w) k = in_memory_storage w k)
       \<and> in_memory_storage (InMemoryDataNode_write n1 X w) (dn_id n1) = Some X"
  using assms
  by (simp add: InMemoryDataNode_write_def InMemoryDataNode_read_def)

theorem write_changes_own_key_only_witness:
  "dn_id other_node \<noteq> dn_id plain_node
   \<and> in_memory_storage (InMemoryDataNode_write other_node (PInt 3) stocked_world)
        (dn_id plain_node) = Some (PInt 7)
   \<and> in_memory_storage (InMemoryDataNode_write plain_node (PInt 3) stocked_world)
        (dn_id other_node) = None"
proof -
  have h: "dn_id other_node \<noteq> dn_id plain_node"
    by (simp add: other_node_def plain_node_def)
  from write_changes_own_key_only [OF h, of "PInt 3" stocked_world]
       write_changes_own_key_only [OF h [symmetric], of "PInt 3" stocked_world]
  show ?thesis using h
    by (simp add: stocked_world_def other_node_def plain_node_def)
qed

subsection \<open>The property hooks\<close>

text \<open>
  C8: the two property hooks are identity transforms: serialising a dictionary gives the
  dictionary, so does deserialising, and deserialising a serialised dictionary gives it
  back.
\<close>

theorem property_hooks_identity:
  "serialize_datanode_properties d = d
   \<and> deserialize_datanode_model_properties d = d
   \<and> deserialize_datanode_model_properties (serialize_datanode_properties d) = d"
  by (simp add: serialize_datanode_properties_def deserialize_datanode_model_properties_def)

end
